theory Spec2Isabelle
  imports Complex_Main "HOL-Library.Sublist" "HOL-Library.Log_Nat"
begin

section \<open>Python strings\<close>

text \<open>
  A Python \<open>str\<close> is modelled as a \<open>string\<close> whose characters are the code points
  below 256 (Latin-1). The empty string is the only falsy one.
\<close>

text \<open>The no-break space \<open>"\xa0"\<close>.\<close>

definition NBSP :: char where
  "NBSP = CHR 0xA0"

text \<open>The white space of \<open>str.strip\<close>, \<open>str.isspace\<close> and the pattern \<open>\s\<close>.\<close>

definition is_space :: "char \<Rightarrow> bool" where
  "is_space c = (c \<in> set [CHR 0x09, CHR 0x0A, CHR 0x0B, CHR 0x0C, CHR 0x0D, CHR 0x1C,
     CHR 0x1D, CHR 0x1E, CHR 0x1F, CHR '' '', CHR 0x85, CHR 0xA0])"

definition strip :: "string \<Rightarrow> string" where
  "strip s = rev (dropWhile is_space (rev (dropWhile is_space s)))"


text \<open>\<open>sub in s\<close>\<close>

fun contains :: "string \<Rightarrow> string \<Rightarrow> bool" where
  "contains [] sub = (sub = [])"
| "contains (c # cs) sub = (prefix sub (c # cs) \<or> contains cs sub)"

text \<open>\<open>s.replace(old, new)\<close> for a non-empty \<open>old\<close>: left to right, without overlap.\<close>

function replace :: "string \<Rightarrow> string \<Rightarrow> string \<Rightarrow> string" where
  "replace s old new =
     (if old = [] \<or> s = [] then s
      else if prefix old s then new @ replace (drop (length old) s) old new
      else hd s # replace (tl s) old new)"
  by pat_completeness auto
termination
  by (relation "measure (\<lambda>(s, old, new). length s)") auto

declare replace.simps [simp del]

text \<open>
  \<open>str.lower\<close> on Latin-1: the letters A to Z and the capital letters from 0xC0 to 0xDE
  (0xD7, the multiplication sign, is not a letter) have a small letter, 32 places up.
\<close>

definition upper_letters :: string where
  "upper_letters = ''ABCDEFGHIJKLMNOPQRSTUVWXYZ'' @
    [CHR 0xC0, CHR 0xC1, CHR 0xC2, CHR 0xC3, CHR 0xC4, CHR 0xC5, CHR 0xC6, CHR 0xC7,
      CHR 0xC8, CHR 0xC9, CHR 0xCA, CHR 0xCB, CHR 0xCC, CHR 0xCD, CHR 0xCE, CHR 0xCF,
      CHR 0xD0, CHR 0xD1, CHR 0xD2, CHR 0xD3, CHR 0xD4, CHR 0xD5, CHR 0xD6, CHR 0xD8,
      CHR 0xD9, CHR 0xDA, CHR 0xDB, CHR 0xDC, CHR 0xDD, CHR 0xDE]"

definition lower_letters :: string where
  "lower_letters = ''abcdefghijklmnopqrstuvwxyz'' @
    [CHR 0xE0, CHR 0xE1, CHR 0xE2, CHR 0xE3, CHR 0xE4, CHR 0xE5, CHR 0xE6, CHR 0xE7,
      CHR 0xE8, CHR 0xE9, CHR 0xEA, CHR 0xEB, CHR 0xEC, CHR 0xED, CHR 0xEE, CHR 0xEF,
      CHR 0xF0, CHR 0xF1, CHR 0xF2, CHR 0xF3, CHR 0xF4, CHR 0xF5, CHR 0xF6, CHR 0xF8,
      CHR 0xF9, CHR 0xFA, CHR 0xFB, CHR 0xFC, CHR 0xFD, CHR 0xFE]"

definition lower_char :: "char \<Rightarrow> char" where
  "lower_char c = (case map_of (zip upper_letters lower_letters) c of Some d \<Rightarrow> d | None \<Rightarrow> c)"

definition lower :: "string \<Rightarrow> string" where
  "lower s = map lower_char s"

text \<open>The decimal digits of \<open>\d\<close>, \<open>int\<close> and \<open>float\<close>: below 256 these are 0 to 9.\<close>

definition is_digit :: "char \<Rightarrow> bool" where
  "is_digit c = (c \<in> set ''0123456789'')"

definition digit_val :: "char \<Rightarrow> int" where
  "digit_val c = int (of_char c) - 48"

definition digits_val :: "string \<Rightarrow> int" where
  "digits_val ds = foldl (\<lambda>n c. 10 * n + digit_val c) 0 ds"

text \<open>An optional sign: whether it is a minus, and the rest.\<close>

definition sign_split :: "string \<Rightarrow> bool \<times> string" where
  "sign_split s =
     (case s of
        [] \<Rightarrow> (False, [])
      | c # t \<Rightarrow> if c = CHR ''-'' then (True, t) else if c = CHR ''+'' then (False, t)
                 else (False, s))"

text \<open>
  \<open>int\<close> and \<open>float\<close> accept single underscores between digits: every underscore has
  a digit before it and a digit after it.
\<close>

fun underscores_ok :: "char \<Rightarrow> string \<Rightarrow> bool" where
  "underscores_ok prev [] = True"
| "underscores_ok prev (c # cs) =
     (if c = CHR ''_'' then is_digit prev \<and> cs \<noteq> [] \<and> is_digit (hd cs) \<and> underscores_ok c cs
      else underscores_ok c cs)"

section \<open>The fetcher: \<open>get_html\<close> (task1\_dawn.py, task2\_PSX.py)\<close>

text \<open>
  \<open>requests.get\<close> either raises a \<open>RequestException\<close> (no connection, timeout) or
  returns a response with a status code and a body. \<open>raise_for_status\<close> raises
  \<open>HTTPError\<close>, which is a \<open>RequestException\<close> as well.
\<close>

datatype request_exception = ConnectionError | Timeout | HTTPError nat

datatype reply = Failed request_exception | Response nat string

text \<open>\<open>RuntimeError(f"Failed to fetch {url}: {last_err}")\<close>\<close>

datatype error = RuntimeError string "request_exception option"

text \<open>
  \<^verbatim>\<open>
    last_err = None
    for attempt in range(retries):
        try:
            r = requests.get(url, headers=HEADERS, timeout=timeout)
            if r.status_code == 200:
                return r.text
            if r.status_code in (403, 429, 502, 503, 504):
                time.sleep((backoff ** attempt) + random.uniform(0, 0.4))
                continue
            r.raise_for_status()
        except requests.RequestException as e:
            last_err = e
            time.sleep((backoff ** attempt) + random.uniform(0, 0.3))
    raise RuntimeError(f"Failed to fetch {url}: {last_err}")
  \<close>
  The server is the function that gives the reply to each attempt. The loop state is
  \<open>last_err\<close> and the number of requests sent so far; the sleeps take time and change
  nothing else. \<open>raise_for_status\<close> raises for a status from 400 to 599, inside the
  \<open>try\<close>, so the \<open>except\<close> clause of the loop catches it; for any other status it
  returns and the loop goes on to the next attempt. The function is the same in both
  files but for the default \<open>timeout\<close>.
\<close>

fun get_html_loop ::
  "(nat \<Rightarrow> reply) \<Rightarrow> nat list \<Rightarrow> request_exception option \<Rightarrow> nat
   \<Rightarrow> (request_exception option + string) \<times> nat" where
  "get_html_loop server [] last_err sent = (Inl last_err, sent)"
| "get_html_loop server (attempt # rest) last_err sent =
     (case server attempt of
        Failed e \<Rightarrow> get_html_loop server rest (Some e) (Suc sent)
      | Response status_code text \<Rightarrow>
          if status_code = 200 then (Inr text, Suc sent)
          else if status_code \<in> {403, 429, 502, 503, 504}
            then get_html_loop server rest last_err (Suc sent)
          else if 400 \<le> status_code \<and> status_code < 600
            then get_html_loop server rest (Some (HTTPError status_code)) (Suc sent)
          else get_html_loop server rest last_err (Suc sent))"

text \<open>The result, and the number of requests that were sent.\<close>

definition get_html :: "(nat \<Rightarrow> reply) \<Rightarrow> string \<Rightarrow> nat \<Rightarrow> (error + string) \<times> nat" where
  "get_html server u retries =
     (case get_html_loop server [0..<retries] None 0 of
        (Inl last_err, sent) \<Rightarrow> (Inl (RuntimeError u last_err), sent)
      | (Inr text, sent) \<Rightarrow> (Inr text, sent))"

section \<open>Deduplication by URL (task1\_dawn.py, task4\_Daraz.py)\<close>

subsection \<open>\<open>parse_dawn_articles\<close>: the loop over \<open>rows\<close>\<close>

record dawn_row =
  headline :: string
  url :: string

text \<open>
  \<^verbatim>\<open>
    seen = set()
    unique_rows = []
    for row in rows:
        if row["url"] not in seen:
            seen.add(row["url"])
            unique_rows.append(row)
    return unique_rows
  \<close>
  The loop state is \<open>seen\<close> and \<open>unique_rows\<close>.
\<close>

fun unique_rows_loop :: "dawn_row list \<Rightarrow> string set \<Rightarrow> dawn_row list \<Rightarrow> dawn_row list" where
  "unique_rows_loop [] seen unique_rows = unique_rows"
| "unique_rows_loop (row # rows) seen unique_rows =
     (if url row \<notin> seen
      then unique_rows_loop rows (insert (url row) seen) (unique_rows @ [row])
      else unique_rows_loop rows seen unique_rows)"

definition dedupe_rows :: "dawn_row list \<Rightarrow> dawn_row list" where
  "dedupe_rows rows = unique_rows_loop rows {} []"

subsection \<open>\<open>parse_results_page_html\<close>: the loop over \<open>cards\<close>\<close>








section \<open>The collector: \<open>collect_dawn_headlines\<close> (task1\_dawn.py)\<close>

text \<open>
  What lies outside the program: the server's replies to each URL, the links that
  \<open>soup.select("h1 a[href], h2 a[href], h3 a[href]")\<close> finds in a page (each with its
  \<open>href\<close> and its text), \<open>urllib.parse.urljoin\<close>, and the clock.
\<close>

record anchor =
  a_href :: string
  a_text :: string

record env =
  http :: "string \<Rightarrow> nat \<Rightarrow> reply"
  select_links :: "string \<Rightarrow> anchor list"
  urljoin :: "string \<Rightarrow> string \<Rightarrow> string"
  now :: string

text \<open>
  \<^verbatim>\<open>
    for a in soup.select("h1 a[href], h2 a[href], h3 a[href]"):
        href = (a.get("href") or "").strip()
        if "/news/" not in href:
            continue
        headline = a.get_text(" ", strip=True).replace("Image:", "").strip()
        if not headline or len(headline) < 5:
            continue
        url = urljoin(base, href)
        rows.append({"headline": headline, "url": url})
  \<close>
\<close>

fun article_rows :: "(string \<Rightarrow> string) \<Rightarrow> anchor list \<Rightarrow> dawn_row list" where
  "article_rows join [] = []"
| "article_rows join (a # links) =
     (let href = strip (a_href a) in
      if \<not> contains href ''/news/'' then article_rows join links
      else
        let h = strip (replace (a_text a) ''Image:'' []) in
        if h = [] \<or> length h < 5 then article_rows join links
        else \<lparr>headline = h, url = join href\<rparr> # article_rows join links)"

definition parse_dawn_articles :: "env \<Rightarrow> string \<Rightarrow> dawn_row list" where
  "parse_dawn_articles e html =
     dedupe_rows (article_rows (urljoin e ''https://www.dawn.com'') (select_links e html))"

definition BASE_URLS :: "string list" where
  "BASE_URLS = [''https://www.dawn.com'', ''https://www.dawn.com/latest-news'']"

text \<open>\<open>print(f"[warn] {u}: {e}")\<close>\<close>

datatype warning = Warn string error

text \<open>
  \<^verbatim>\<open>
    collected = []
    for u in BASE_URLS:
        try:
            html = get_html(u)
            collected.extend(parse_dawn_articles(html))
            if len(collected) >= n:
                break
        except Exception as e:
            print(f"[warn] {u}: {e}")
  \<close>
  The loop state is \<open>collected\<close> and the lines printed so far.
\<close>

fun collect_loop ::
  "env \<Rightarrow> nat \<Rightarrow> string list \<Rightarrow> dawn_row list \<Rightarrow> warning list
   \<Rightarrow> dawn_row list \<times> warning list" where
  "collect_loop e n [] collected printed = (collected, printed)"
| "collect_loop e n (u # us) collected printed =
     (case fst (get_html (http e u) u 3) of
        Inl err \<Rightarrow> collect_loop e n us collected (printed @ [Warn u err])
      | Inr html \<Rightarrow>
          let collected' = collected @ parse_dawn_articles e html in
          if length collected' \<ge> n then (collected', printed)
          else collect_loop e n us collected' printed)"

record frame_row = dawn_row +
  scraped_at :: string
  source :: string

text \<open>
  \<^verbatim>\<open>
    df = pd.DataFrame(collected[:n], columns=["headline", "url"])
    if df.empty:
        df = pd.DataFrame(columns=["headline", "url"])
    df["url"] = df["url"].fillna("No URL available")
    df["scraped_at"] = datetime.now().strftime("%Y-%m-%d %H:%M:%S")
    df["source"] = "dawn.com"
    return df
  \<close>
  Every \<open>url\<close> is a string, so \<open>fillna\<close> changes nothing. Whatever the pipeline of an
  endpoint raises is caught in the loop, and nothing after the loop raises: the function
  returns a frame on every path, written \<open>Inr\<close>. The endpoints are a parameter here;
  the program runs over \<open>BASE_URLS\<close>.
\<close>

definition collect_from ::
  "env \<Rightarrow> string list \<Rightarrow> nat \<Rightarrow> (error + frame_row list) \<times> warning list" where
  "collect_from e endpoints n =
     (case collect_loop e n endpoints [] [] of
        (collected, printed) \<Rightarrow>
          (Inr (map (\<lambda>r. \<lparr>headline = headline r, url = url r,
                           scraped_at = now e, source = ''dawn.com''\<rparr>) (take n collected)),
           printed))"

definition collect_dawn_headlines ::
  "env \<Rightarrow> nat \<Rightarrow> (error + frame_row list) \<times> warning list" where
  "collect_dawn_headlines e n = collect_from e BASE_URLS n"

text \<open>Two worlds to run the collector in: one where no request ever gets through,\<close>

definition env_down :: env where
  "env_down =
     \<lparr>http = (\<lambda>u attempt. Failed ConnectionError), select_links = (\<lambda>html. []),
      urljoin = (\<lambda>base href. base @ href), now = ''2024-05-01 09:00:00''\<rparr>"

text \<open>
  and one where the front page times out on every attempt while the second endpoint
  answers with a page of three headline links, two of them to the same article.
\<close>

definition env_front_page_down :: env where
  "env_front_page_down =
     \<lparr>http = (\<lambda>u attempt. if u = ''https://www.dawn.com'' then Failed Timeout
                           else Response 200 ''<html>''),
      select_links = (\<lambda>html.
        [\<lparr>a_href = ''/news/1'', a_text = ''Image: Budget passed''\<rparr>,
         \<lparr>a_href = ''/news/1'', a_text = ''Budget passed''\<rparr>,
         \<lparr>a_href = '' /news/2 '', a_text = ''Rain expected''\<rparr>]),
      urljoin = (\<lambda>base href. base @ href), now = ''2024-05-01 09:00:00''\<rparr>"

section \<open>Python floats and integers\<close>

text \<open>
  A Python \<open>float\<close> is an IEEE 754 double: a finite value, which is a rational number, written as a real
  (the two zeros are identified), an infinity or NaN. \<open>to_double\<close> rounds a real number to
  the nearest double, ties to even: the binade of \<open>\<bar>x\<bar>\<close> (not below the one of the
  subnormals) fixes the spacing \<open>ulp\<close> of the doubles around it. A magnitude of
  \<open>2 ^ 1024\<close> or more, before or after rounding, overflows to an infinity.
\<close>

datatype pyfloat = Finite real | PosInf | NegInf | NaN

definition round_half_even :: "real \<Rightarrow> int" where
  "round_half_even x =
     (let f = \<lfloor>x\<rfloor>; d = x - of_int f in
      if d < 1 / 2 then f else if 1 / 2 < d then f + 1 else if even f then f else f + 1)"

text \<open>For \<open>a > 0\<close>, the exponent \<open>e\<close> with \<open>2 ^ e \<le> a < 2 ^ (e + 1)\<close>.\<close>

definition binade :: "real \<Rightarrow> int" where
  "binade a = (if 1 \<le> a then bitlen \<lfloor>a\<rfloor> - 1 else - bitlen (\<lceil>1 / a\<rceil> - 1))"

definition pow2 :: "int \<Rightarrow> real" where
  "pow2 k = (if 0 \<le> k then 2 ^ nat k else 1 / 2 ^ nat (- k))"

definition pow10 :: "int \<Rightarrow> real" where
  "pow10 k = (if 0 \<le> k then 10 ^ nat k else 1 / 10 ^ nat (- k))"

definition to_double :: "real \<Rightarrow> pyfloat" where
  "to_double x =
     (if x = 0 then Finite 0
      else if 2 ^ 1024 \<le> \<bar>x\<bar> then (if 0 < x then PosInf else NegInf)
      else
        let a = \<bar>x\<bar>;
            ulp = pow2 (max (binade a) (- 1022) - 52);
            r = of_int (round_half_even (a / ulp)) * ulp
        in if 2 ^ 1024 \<le> r then (if 0 < x then PosInf else NegInf)
           else Finite (if 0 < x then r else - r))"

text \<open>\<open>x - y\<close> on floats.\<close>

fun fsub :: "pyfloat \<Rightarrow> pyfloat \<Rightarrow> pyfloat" where
  "fsub (Finite a) (Finite b) = to_double (a - b)"
| "fsub NaN y = NaN"
| "fsub x NaN = NaN"
| "fsub PosInf PosInf = NaN"
| "fsub NegInf NegInf = NaN"
| "fsub PosInf y = PosInf"
| "fsub NegInf y = NegInf"
| "fsub (Finite a) PosInf = NegInf"
| "fsub (Finite a) NegInf = PosInf"

text \<open>
  An unsigned decimal literal: digits with an optional fraction, or a fraction alone,
  and an optional exponent. \<open>None\<close> when the string is not one.
\<close>

definition decimal_value :: "string \<Rightarrow> real option" where
  "decimal_value s =
     (let ip = takeWhile is_digit s;
          r1 = dropWhile is_digit s;
          has_dot = (r1 \<noteq> [] \<and> hd r1 = CHR ''.'');
          fp = (if has_dot then takeWhile is_digit (tl r1) else []);
          r2 = (if has_dot then dropWhile is_digit (tl r1) else r1);
          m = of_int (digits_val (ip @ fp));
          k = int (length fp)
      in if ip = [] \<and> fp = [] then None
         else if r2 = [] then Some (m * pow10 (- k))
         else if hd r2 = CHR ''e'' \<or> hd r2 = CHR ''E'' then
           (case sign_split (tl r2) of
              (eneg, ds) \<Rightarrow>
                if ds \<noteq> [] \<and> list_all is_digit ds
                then Some (m * pow10 ((if eneg then - digits_val ds else digits_val ds) - k))
                else None)
         else None)"

text \<open>
  \<open>float(s)\<close> for a string: white space around is stripped, underscores between digits
  dropped, then comes a sign and \<open>inf\<close>, \<open>infinity\<close> or \<open>nan\<close> in any case, or a decimal
  literal, which is rounded. \<open>None\<close> stands for \<open>ValueError\<close>.
\<close>

definition py_float :: "string \<Rightarrow> pyfloat option" where
  "py_float x =
     (let s = strip x in
      if \<not> underscores_ok CHR '' '' s then None
      else
        case sign_split (filter (\<lambda>c. c \<noteq> CHR ''_'') s) of
          (neg, body) \<Rightarrow>
            if lower body = ''inf'' \<or> lower body = ''infinity''
              then Some (if neg then NegInf else PosInf)
            else if lower body = ''nan'' then Some NaN
            else map_option (\<lambda>q. to_double (if neg then - q else q)) (decimal_value body))"

text \<open>
  \<open>int(s)\<close> for a string, in base 10: white space, underscores and sign as for \<open>float\<close>,
  then digits only. CPython (3.11 and later) refuses more than 4300 digits. \<open>None\<close>
  stands for \<open>ValueError\<close>.
\<close>

definition py_int :: "string \<Rightarrow> int option" where
  "py_int x =
     (let s = strip x in
      if \<not> underscores_ok CHR '' '' s then None
      else
        case sign_split (filter (\<lambda>c. c \<noteq> CHR ''_'') s) of
          (neg, ds) \<Rightarrow>
            if ds = [] \<or> \<not> list_all is_digit ds \<or> 4300 < length ds then None
            else Some (if neg then - digits_val ds else digits_val ds))"

section \<open>Field normalisation (task2\_PSX.py, task5\_GoodReads.py)\<close>

text \<open>
  A cell of a DataFrame: \<open>pd.NA\<close>, a string, an integer or a float. A float in a cell is
  always a double.
\<close>

datatype cell = NA | Text string | Integer int | Number pyfloat

text \<open>\<open>pd.isna\<close> and \<open>pd.notna\<close>: \<open>pd.NA\<close> and the float NaN are missing.\<close>

definition isna :: "cell \<Rightarrow> bool" where
  "isna x = (x = NA \<or> x = Number NaN)"

definition notna :: "cell \<Rightarrow> bool" where
  "notna x = (\<not> isna x)"

subsection \<open>The regular expressions\<close>

text \<open>\<open>_num_cleaner = re.compile(r"[^0-9+\-\.eE]")\<close>, and \<open>_num_cleaner.sub("", s)\<close>\<close>

definition num_cleaner_sub :: "string \<Rightarrow> string" where
  "num_cleaner_sub s = filter (\<lambda>c. c \<in> set ''0123456789+-.eE'') s"

text \<open>
  \<open>(-?\d+(?:\.\d+)?)\s*%\<close> matched at the start of \<open>s\<close>: the group, if it matches. The
  digits are taken greedily; giving some back never helps, since what follows a shorter
  run is a digit, and neither white space nor the percent sign.
\<close>

definition match_percent :: "string \<Rightarrow> string option" where
  "match_percent s =
     (let minus = (s \<noteq> [] \<and> hd s = CHR ''-'');
          r = (if minus then tl s else s);
          ip = takeWhile is_digit r;
          r1 = dropWhile is_digit r;
          fp = (if r1 \<noteq> [] \<and> hd r1 = CHR ''.'' then takeWhile is_digit (tl r1) else []);
          r2 = (if fp \<noteq> [] then dropWhile is_digit (tl r1) else r1);
          r3 = dropWhile is_space r2
      in if ip \<noteq> [] \<and> r3 \<noteq> [] \<and> hd r3 = CHR ''%''
         then Some ((if minus then ''-'' else []) @ ip @ (if fp \<noteq> [] then CHR ''.'' # fp else []))
         else None)"

text \<open>\<open>re.search(r"(-?\d+(?:\.\d+)?)\s*%", s)\<close>: group 1 of the leftmost match.\<close>

fun search_percent :: "string \<Rightarrow> string option" where
  "search_percent [] = None"
| "search_percent (c # cs) =
     (case match_percent (c # cs) of Some g \<Rightarrow> Some g | None \<Rightarrow> search_percent cs)"

text \<open>\<open>re.findall(r"\d[\d,]*", s)\<close>: the runs of digits and commas that start with a digit.\<close>

definition digit_or_comma :: "char \<Rightarrow> bool" where
  "digit_or_comma c = (is_digit c \<or> c = CHR '','')"

function findall_digit_groups :: "string \<Rightarrow> string list" where
  "findall_digit_groups [] = []"
| "findall_digit_groups (c # cs) =
     (if is_digit c
      then (c # takeWhile digit_or_comma cs) # findall_digit_groups (dropWhile digit_or_comma cs)
      else findall_digit_groups cs)"
  by pat_completeness auto
termination
  by (relation "measure length") (auto simp: length_dropWhile_le less_Suc_eq_le)

text \<open>
  \<open>(\d+\.\d+|\d+)\<close> matched at the start of \<open>s\<close>, and
  \<open>re.search(r"(\d+\.\d+|\d+)", s)\<close>: the leftmost match.
\<close>

definition match_number :: "string \<Rightarrow> string option" where
  "match_number s =
     (let ip = takeWhile is_digit s;
          r1 = dropWhile is_digit s;
          fp = (if r1 \<noteq> [] \<and> hd r1 = CHR ''.'' then takeWhile is_digit (tl r1) else [])
      in if ip = [] then None
         else Some (ip @ (if fp \<noteq> [] then CHR ''.'' # fp else [])))"

fun search_number :: "string \<Rightarrow> string option" where
  "search_number [] = None"
| "search_number (c # cs) =
     (case match_number (c # cs) of Some g \<Rightarrow> Some g | None \<Rightarrow> search_number cs)"

subsection \<open>\<open>_to_float\<close> and \<open>_to_percent\<close>\<close>

text \<open>
  \<^verbatim>\<open>
    def _to_float(x):
        if pd.isna(x): return pd.NA
        s = str(x).strip()
        if s in ("", "-", "--"): return pd.NA
        s = s.replace(",", "")
        s = _num_cleaner.sub("", s)
        if s in ("", "+", "-"): return pd.NA
        try:
            return float(s)
        except Exception:
            return pd.NA
  \<close>
  First the function on the string \<open>str(x)\<close>.
\<close>

definition to_float_str :: "string \<Rightarrow> cell" where
  "to_float_str sx =
     (let s = strip sx in
      if s \<in> {[], ''-'', ''--''} then NA
      else
        let s1 = replace s '','' [];
            s2 = num_cleaner_sub s1
        in if s2 \<in> {[], ''+'', ''-''} then NA
           else case py_float s2 of Some f \<Rightarrow> Number f | None \<Rightarrow> NA)"

text \<open>\<open>str(n)\<close> for an integer.\<close>

function nat_digits :: "nat \<Rightarrow> string" where
  "nat_digits n = (if n < 10 then [char_of (48 + n)] else nat_digits (n div 10) @ [char_of (48 + n mod 10)])"
  by pat_completeness auto
termination
  by (relation "measure id") auto

declare nat_digits.simps [simp del]

definition str_int :: "int \<Rightarrow> string" where
  "str_int n = (if n < 0 then CHR ''-'' # nat_digits (nat (- n)) else nat_digits (nat n))"

text \<open>
  \<open>str(x)\<close> of a finite float is the shortest decimal literal that \<open>float\<close> reads back as
  \<open>x\<close>. It is made of digits, a sign, a dot and an exponent with \<open>e\<close>, so that neither
  \<open>strip\<close> nor \<open>replace\<close> nor the cleaner changes it, it is none of the strings tested
  for, and \<open>float\<close> returns \<open>x\<close>. \<open>str\<close> of the infinities is \<open>inf\<close> and \<open>-inf\<close>.
\<close>

definition to_float :: "cell \<Rightarrow> cell" where
  "to_float x =
     (if isna x then NA
      else case x of
        Text s \<Rightarrow> to_float_str s
      | Integer n \<Rightarrow> to_float_str (str_int n)
      | Number (Finite q) \<Rightarrow> Number (Finite q)
      | Number PosInf \<Rightarrow> to_float_str ''inf''
      | Number NegInf \<Rightarrow> to_float_str ''-inf'')"

text \<open>
  \<^verbatim>\<open>
    def _to_percent(x):
        if pd.isna(x): return pd.NA
        s = str(x)
        m = re.search(r"(-?\d+(?:\.\d+)?)\s*%", s)
        if m:
            try:
                return float(m.group(1))
            except Exception:
                return pd.NA
        return _to_float(s)
  \<close>
  \<open>str\<close> of a number has no percent sign, so only a string can match.
\<close>

definition to_percent :: "cell \<Rightarrow> cell" where
  "to_percent x =
     (if isna x then NA
      else case x of
        Text s \<Rightarrow>
          (case search_percent s of
             Some g \<Rightarrow> (case py_float g of Some f \<Rightarrow> Number f | None \<Rightarrow> NA)
           | None \<Rightarrow> to_float (Text s))
      | _ \<Rightarrow> to_float x)"

subsection \<open>\<open>parse_int\<close> and \<open>parse_float\<close>\<close>

text \<open>
  \<^verbatim>\<open>
    def parse_int(s: str) -> Optional[int]:
        if not s:
            return None
        m = re.findall(r"\d[\d,]*", s.replace("\u202f","").replace("\xa0"," "))
        if not m:
            return None
        try:
            return int(m[-1].replace(",", ""))
        except Exception:
            return None
  \<close>
  U+202F is not a character below 256, so the first \<open>replace\<close> finds nothing.
\<close>

definition parse_int :: "string \<Rightarrow> int option" where
  "parse_int s =
     (if s = [] then None
      else
        let m = findall_digit_groups (replace s [NBSP] '' '') in
        if m = [] then None else py_int (replace (last m) '','' []))"

text \<open>
  \<^verbatim>\<open>
    def parse_float(s: str) -> Optional[float]:
        if not s:
            return None
        m = re.search(r"(\d+\.\d+|\d+)", s)
        if not m:
            return None
        try:
            return float(m.group(1))
        except Exception:
            return None
  \<close>
\<close>

definition parse_float :: "string \<Rightarrow> pyfloat option" where
  "parse_float s =
     (if s = [] then None
      else case search_number s of None \<Rightarrow> None | Some g \<Rightarrow> py_float g)"

section \<open>Reference functions for the statements\<close>


section \<open>Properties of the deduplication loops\<close>














section \<open>Properties of the fetcher and the collector\<close>

lemma get_html_never_answered:
  "get_html (\<lambda>attempt. Failed x) u 3 = (Inl (RuntimeError u (Some x)), 3)"
  by (simp add: get_html_def upt_rec)

lemma collect_loop_all_fail:
  "\<forall>u \<in> set us. isl (fst (get_html (http e u) u 3)) \<Longrightarrow>
   collect_loop e n us collected printed =
     (collected, printed @ map (\<lambda>u. Warn u (projl (fst (get_html (http e u) u 3)))) us)"
  by (induction us arbitrary: printed) (auto split: sum.splits)

text \<open>
  Claim C2, at a failing input. The first reply is 404, which is neither 200 nor one of
  403, 429, 502, 503, 504; the second reply is 200. \<open>get_html\<close> does not fail after the
  first reply: it sends a second request and returns its body.
\<close>

theorem C2_not_found_is_retried:
  "get_html (\<lambda>attempt. if attempt = 0 then Response 404 [] else Response 200 ''<html>'')
     ''https://dps.psx.com.pk/indices'' 3 = (Inr ''<html>'', 2)"
  by (simp add: get_html_def upt_rec)

text \<open>
  Claim C1 as stated fails when every endpoint fails: both fetches exhaust their
  retries, both failures are printed, and \<open>collect_dawn_headlines\<close> returns an empty
  frame instead of raising.
\<close>

theorem C1_nothing_collected_returns_empty_frame:
  "fst (get_html (http env_down ''https://www.dawn.com'') ''https://www.dawn.com'' 3)
     = Inl (RuntimeError ''https://www.dawn.com'' (Some ConnectionError))
   \<and> fst (get_html (http env_down ''https://www.dawn.com/latest-news'')
          ''https://www.dawn.com/latest-news'' 3)
     = Inl (RuntimeError ''https://www.dawn.com/latest-news'' (Some ConnectionError))
   \<and> collect_dawn_headlines env_down 30 =
       (Inr [],
        [Warn ''https://www.dawn.com''
           (RuntimeError ''https://www.dawn.com'' (Some ConnectionError)),
         Warn ''https://www.dawn.com/latest-news''
           (RuntimeError ''https://www.dawn.com/latest-news'' (Some ConnectionError))])"
  by (simp add: collect_dawn_headlines_def collect_from_def BASE_URLS_def env_down_def
      get_html_never_answered)

text \<open>
  Claim C1, amended. For every sequence of endpoints: when the fetch of an endpoint
  fails, the loop prints one warning for it and goes on with the remaining endpoints,
  the records collected so far unchanged; the collector returns a frame on every run
  and never raises; and when every endpoint fails that frame is empty, with one
  warning printed per endpoint.
\<close>

theorem C1_endpoint_failures_are_contained:
  "(fst (get_html (http e u) u 3) = Inl err \<longrightarrow>
      collect_loop e n (u # us) collected printed
        = collect_loop e n us collected (printed @ [Warn u err]))
   \<and> (\<exists>frame. fst (collect_from e endpoints n) = Inr frame)
   \<and> ((\<forall>u \<in> set endpoints. isl (fst (get_html (http e u) u 3))) \<longrightarrow>
        collect_from e endpoints n
          = (Inr [], map (\<lambda>u. Warn u (projl (fst (get_html (http e u) u 3)))) endpoints))"
  by (auto simp: collect_from_def collect_loop_all_fail split: prod.splits)

lemma parse_latest_news: "parse_dawn_articles env_front_page_down h =
   [\<lparr>headline = ''Budget passed'', url = ''https://www.dawn.com/news/1''\<rparr>,
    \<lparr>headline = ''Rain expected'', url = ''https://www.dawn.com/news/2''\<rparr>]"
  by (simp add: parse_dawn_articles_def env_front_page_down_def strip_def is_space_def
      replace.simps dedupe_rows_def Let_def)

theorem C1_endpoint_failures_are_contained_witness:
  "fst (get_html (http env_front_page_down ''https://www.dawn.com'') ''https://www.dawn.com'' 3)
     = Inl (RuntimeError ''https://www.dawn.com'' (Some Timeout))
   \<and> collect_loop env_front_page_down 1 BASE_URLS [] []
       = collect_loop env_front_page_down 1 [''https://www.dawn.com/latest-news''] []
           [Warn ''https://www.dawn.com'' (RuntimeError ''https://www.dawn.com'' (Some Timeout))]
   \<and> fst (collect_from env_front_page_down BASE_URLS 1)
       = Inr [\<lparr>headline = ''Budget passed'', url = ''https://www.dawn.com/news/1'',
               scraped_at = ''2024-05-01 09:00:00'', source = ''dawn.com''\<rparr>]
   \<and> collect_from env_down BASE_URLS 30 =
       (Inr [],
        [Warn ''https://www.dawn.com''
           (RuntimeError ''https://www.dawn.com'' (Some ConnectionError)),
         Warn ''https://www.dawn.com/latest-news''
           (RuntimeError ''https://www.dawn.com/latest-news'' (Some ConnectionError))])"
proof -
  have down: "fst (get_html (http env_front_page_down ''https://www.dawn.com'')
      ''https://www.dawn.com'' 3) = Inl (RuntimeError ''https://www.dawn.com'' (Some Timeout))"
    by (simp add: env_front_page_down_def get_html_never_answered)
  have up: "get_html (http env_front_page_down ''https://www.dawn.com/latest-news'')
      ''https://www.dawn.com/latest-news'' 3 = (Inr ''<html>'', 1)"
    by (simp add: env_front_page_down_def get_html_def upt_rec)
  have all_down: "\<forall>u \<in> set BASE_URLS. isl (fst (get_html (http env_down u) u 3))"
    by (simp add: env_down_def get_html_never_answered)
  note thm1 = C1_endpoint_failures_are_contained
    [where e = env_front_page_down and u = "''https://www.dawn.com''" and n = 1
       and us = "[''https://www.dawn.com/latest-news'']" and collected = "[]"
       and printed = "[]"]
  note thm2 = C1_endpoint_failures_are_contained [where e = env_down and endpoints = BASE_URLS and n = 30]
  from thm1 down have step: "collect_loop env_front_page_down 1 BASE_URLS [] []
       = collect_loop env_front_page_down 1 [''https://www.dawn.com/latest-news''] []
           [Warn ''https://www.dawn.com'' (RuntimeError ''https://www.dawn.com'' (Some Timeout))]"
    by (simp add: BASE_URLS_def)
  have frame: "fst (collect_from env_front_page_down BASE_URLS 1)
       = Inr [\<lparr>headline = ''Budget passed'', url = ''https://www.dawn.com/news/1'',
               scraped_at = ''2024-05-01 09:00:00'', source = ''dawn.com''\<rparr>]"
    unfolding collect_from_def step
    by (simp add: up parse_latest_news) (simp add: env_front_page_down_def)
  from thm2 all_down have empty: "collect_from env_down BASE_URLS 30 =
       (Inr [], map (\<lambda>u. Warn u (projl (fst (get_html (http env_down u) u 3)))) BASE_URLS)"
    by blast
  show ?thesis
    using down step frame empty
    by (simp add: BASE_URLS_def env_down_def get_html_never_answered)
qed

section \<open>Properties of the field normalisation\<close>

subsection \<open>Evaluation on literals\<close>

lemma bitlen_step: "0 < x \<Longrightarrow> bitlen x = bitlen (x div 2) + 1"
  by (subst compute_bitlen) simp

lemmas float_eval = to_double_def binade_def bitlen_step pow2_def pow10_def
  round_half_even_def Let_def

lemmas str_eval = strip_def is_space_def is_digit_def digit_val_def digits_val_def
  sign_split_def lower_def lower_char_def upper_letters_def lower_letters_def replace.simps
  num_cleaner_sub_def NBSP_def

lemma to_double_overflow: "2 ^ 1024 \<le> x \<Longrightarrow> to_double x = PosInf"
proof -
  assume big: "2 ^ 1024 \<le> x"
  have two: "(0::real) < 2 ^ 1024" by (rule zero_less_power) simp
  have pos: "0 < x" by (rule less_le_trans [OF two big])
  then have "\<bar>x\<bar> = x" by (rule abs_of_pos)
  with big pos show ?thesis
    unfolding to_double_def by (simp only: if_True) (use pos in auto)
qed

lemma pow10_big: "342 \<le> k \<Longrightarrow> 2 ^ 1024 \<le> pow10 k"
proof -
  assume k: "342 \<le> k"
  define n where "n = nat k"
  from k have n: "342 \<le> n" and p: "pow10 k = 10 ^ n"
    by (simp_all add: n_def pow10_def)
  from n have "1024 \<le> 3 * n" by simp
  then have "(2::real) ^ 1024 \<le> 2 ^ (3 * n)"
    by (intro power_increasing) simp_all
  also have "\<dots> = (8::real) ^ n"
    by (simp add: power_mult)
  also have "\<dots> \<le> 10 ^ n"
    by (rule power_mono) simp_all
  finally show ?thesis by (simp only: p)
qed

lemma py_float_1e999: "py_float ''1e999'' = Some PosInf"
proof -
  have "py_float ''1e999'' = Some (to_double (pow10 999))"
    by (simp add: py_float_def decimal_value_def str_eval)
  moreover have "to_double (pow10 999) = PosInf"
    by (rule to_double_overflow, rule pow10_big) simp
  ultimately show ?thesis by simp
qed

subsection \<open>What the coercions can return\<close>

lemma set_strip: "set (strip s) \<subseteq> set s"
proof -
  have "set (strip s) \<subseteq> set (dropWhile is_space s)"
    unfolding strip_def using set_dropWhileD [of _ is_space "rev (dropWhile is_space s)"] by auto
  also have "\<dots> \<subseteq> set s"
    using set_dropWhileD [of _ is_space s] by auto
  finally show ?thesis .
qed

lemma set_sign_split: "sign_split s = (neg, body) \<Longrightarrow> set body \<subseteq> set s"
  by (auto simp: sign_split_def split: list.splits if_splits)

lemma to_double_not_NaN: "to_double x \<noteq> NaN"
  by (simp add: to_double_def Let_def)

lemma py_float_NaN:
  assumes "py_float x = Some NaN"
  shows "\<exists>c \<in> set x. lower_char c = CHR ''n''"
proof -
  obtain neg body where sp: "sign_split (filter (\<lambda>c. c \<noteq> CHR ''_'') (strip x)) = (neg, body)"
    by (cases "sign_split (filter (\<lambda>c. c \<noteq> CHR ''_'') (strip x))")
  from assms sp have "lower body = ''nan''"
    by (auto simp: py_float_def Let_def to_double_not_NaN split: if_splits)
  then obtain a b c where body: "body = [a, b, c]" and a: "lower_char a = CHR ''n''"
    by (auto simp: lower_def map_eq_Cons_conv)
  from set_sign_split [OF sp] body have "a \<in> set (strip x)" by auto
  with set_strip have "a \<in> set x" by auto
  with a show ?thesis by blast
qed

lemma cleaned_no_n: "c \<in> set (num_cleaner_sub s) \<Longrightarrow> lower_char c \<noteq> CHR ''n''"
  by (auto simp: num_cleaner_sub_def lower_char_def upper_letters_def lower_letters_def)

lemma to_float_str_cases:
  "to_float_str s = NA \<or> (\<exists>f. to_float_str s = Number f \<and> f \<noteq> NaN)"
proof (cases "to_float_str s = NA")
  case True
  then show ?thesis by simp
next
  case False
  then obtain f where pf: "py_float (num_cleaner_sub (replace (strip s) '','' [])) = Some f"
    and r: "to_float_str s = Number f"
    by (auto simp: to_float_str_def Let_def split: if_splits option.splits)
  have "f \<noteq> NaN"
  proof
    assume "f = NaN"
    with pf py_float_NaN cleaned_no_n show False by blast
  qed
  with r show ?thesis by simp
qed

lemma match_percent_chars:
  "match_percent s = Some g \<Longrightarrow> c \<in> set g \<Longrightarrow> is_digit c \<or> c = CHR ''-'' \<or> c = CHR ''.''"
  by (auto simp: match_percent_def Let_def split: if_splits dest!: set_takeWhileD)

lemma search_percent_chars:
  "search_percent s = Some g \<Longrightarrow> c \<in> set g \<Longrightarrow> is_digit c \<or> c = CHR ''-'' \<or> c = CHR ''.''"
  by (induction s) (auto split: option.splits dest: match_percent_chars)

lemma to_percent_cases:
  "to_percent (Text s) = NA \<or> (\<exists>f. to_percent (Text s) = Number f \<and> f \<noteq> NaN)"
proof (cases "search_percent s")
  case None
  then show ?thesis
    using to_float_str_cases [of s] by (simp add: to_percent_def to_float_def isna_def)
next
  case (Some g)
  show ?thesis
  proof (cases "py_float g")
    case None
    with Some show ?thesis by (simp add: to_percent_def isna_def)
  next
    case (Some f)
    have "f \<noteq> NaN"
    proof
      assume "f = NaN"
      with Some obtain c where c: "c \<in> set g" and n: "lower_char c = CHR ''n''"
        using py_float_NaN by blast
      from search_percent_chars [OF \<open>search_percent s = Some g\<close> c]
      have "lower_char c \<noteq> CHR ''n''"
        by (auto simp: is_digit_def lower_char_def upper_letters_def lower_letters_def)
      with n show False by simp
    qed
    with Some \<open>search_percent s = Some g\<close> show ?thesis
      by (simp add: to_percent_def isna_def)
  qed
qed

subsection \<open>The digit groups of \<open>parse_int\<close>\<close>

lemma replace_char: "replace s [a] [b] = map (\<lambda>c. if c = a then b else c) s"
proof (induction s)
  case Nil
  show ?case by (simp add: replace.simps)
next
  case (Cons c cs)
  have "replace (c # cs) [a] [b] =
      (if a = c then b # replace cs [a] [b] else c # replace cs [a] [b])"
    by (subst replace.simps) simp
  with Cons show ?case by auto
qed

lemma replace_delete: "replace s [a] [] = filter (\<lambda>c. c \<noteq> a) s"
proof (induction s)
  case Nil
  show ?case by (simp add: replace.simps)
next
  case (Cons c cs)
  show ?case by (subst replace.simps) (auto simp: Cons)
qed

lemma findall_no_digits:
  "list_all (\<lambda>c. \<not> is_digit c) s \<Longrightarrow> findall_digit_groups s = []"
  by (induction s) auto

lemma findall_append:
  "pre = [] \<or> \<not> digit_or_comma (last pre) \<Longrightarrow>
   findall_digit_groups (pre @ s) = findall_digit_groups pre @ findall_digit_groups s"
proof (induction pre rule: findall_digit_groups.induct)
  case 1
  show ?case by simp
next
  case (2 c cs)
  show ?case
  proof (cases "is_digit c")
    case False
    with 2 show ?thesis by (cases cs) (auto simp: digit_or_comma_def)
  next
    case True
    with "2.prems" have ne: "cs \<noteq> []" and l: "\<not> digit_or_comma (last cs)"
      by (auto simp: digit_or_comma_def split: if_splits)
    then have mem: "last cs \<in> set cs" by simp
    have tw: "takeWhile digit_or_comma (cs @ s) = takeWhile digit_or_comma cs"
      using mem l by (rule takeWhile_append1)
    have dw: "dropWhile digit_or_comma (cs @ s) = dropWhile digit_or_comma cs @ s"
      using mem l by (rule dropWhile_append1)
    have dne: "dropWhile digit_or_comma cs \<noteq> []"
      using mem l by auto
    have "last (dropWhile digit_or_comma cs) = last cs"
      using dne by (metis append_self_conv last_appendR takeWhile_dropWhile_id)
    with l dne have "dropWhile digit_or_comma cs = [] \<or>
        \<not> digit_or_comma (last (dropWhile digit_or_comma cs))" by simp
    from "2.IH"(1) [OF True this] True show ?thesis
      by (simp add: tw dw)
  qed
qed

lemma findall_group:
  assumes "is_digit d" "list_all digit_or_comma r" "list_all (\<lambda>c. \<not> is_digit c) post"
  shows "findall_digit_groups (d # r @ post) = [d # r @ takeWhile digit_or_comma post]"
proof -
  from assms(2) have r: "\<And>x. x \<in> set r \<Longrightarrow> digit_or_comma x"
    by (simp add: list_all_iff)
  have "list_all (\<lambda>c. \<not> is_digit c) (dropWhile digit_or_comma post)"
    using assms(3) by (auto simp: list_all_iff dest: set_dropWhileD)
  then have "findall_digit_groups (dropWhile digit_or_comma post) = []"
    by (rule findall_no_digits)
  with assms(1) r show ?thesis by simp
qed

lemma digit_not_space: "is_digit c \<Longrightarrow> \<not> is_space c"
  by (auto simp: is_digit_def is_space_def)

lemma strip_digits:
  assumes "s \<noteq> []" "is_digit (hd s)" "is_digit (last s)"
  shows "strip s = s"
proof -
  have a: "dropWhile is_space s = s"
    using assms by (simp add: dropWhile_eq_self_iff digit_not_space)
  have b: "dropWhile is_space (rev s) = rev s"
    using assms by (simp add: dropWhile_eq_self_iff hd_rev digit_not_space)
  show ?thesis by (simp add: strip_def a b)
qed

lemma underscores_ok_none: "CHR ''_'' \<notin> set s \<Longrightarrow> underscores_ok p s"
  by (induction s arbitrary: p) auto

lemma py_int_digits:
  assumes "ds \<noteq> []" "list_all is_digit ds" "length ds \<le> 4300"
  shows "py_int ds = Some (digits_val ds)"
proof -
  from assms have d: "\<And>c. c \<in> set ds \<Longrightarrow> is_digit c" by (simp add: list_all_iff)
  from assms d have hl: "is_digit (hd ds)" "is_digit (last ds)" by simp_all
  have s: "strip ds = ds" using assms(1) hl by (rule strip_digits)
  have u: "CHR ''_'' \<notin> set ds" using d by (auto simp: is_digit_def)
  then have f: "filter (\<lambda>c. c \<noteq> CHR ''_'') ds = ds" by (induction ds) auto
  have sp: "sign_split ds = (False, ds)"
    using assms(1) hl(1) by (cases ds) (auto simp: sign_split_def is_digit_def)
  show ?thesis
    using assms by (simp add: py_int_def s underscores_ok_none [OF u] f sp)
qed

lemma comma_not_digit: "\<not> is_digit CHR '',''"
  by (simp add: is_digit_def)

lemma parse_int_last_group:
  assumes d: "is_digit d" and r: "list_all digit_or_comma r"
    and pre: "pre = [] \<or> \<not> digit_or_comma (last pre)"
    and post: "list_all (\<lambda>c. \<not> is_digit c) post"
    and len: "length (filter is_digit (d # r)) \<le> 4300"
  shows "parse_int (pre @ d # r @ post) = Some (digits_val (filter is_digit (d # r)))"
proof -
  let ?f = "\<lambda>c. if c = NBSP then CHR '' '' else c"
  have nb: "\<not> digit_or_comma NBSP"
    by (simp add: digit_or_comma_def is_digit_def NBSP_def)
  have fd: "\<And>c. digit_or_comma c \<Longrightarrow> ?f c = c"
    using nb by auto
  have sp: "\<not> digit_or_comma CHR '' ''"
    by (simp add: digit_or_comma_def is_digit_def)
  have nd: "\<And>c. \<not> digit_or_comma c \<Longrightarrow> \<not> digit_or_comma (?f c)"
    using sp by auto
  from r have mr: "map ?f r = r"
    by (induction r) (auto simp: fd)
  from d have md: "?f d = d" using fd by (simp add: digit_or_comma_def)
  have pre': "map ?f pre = [] \<or> \<not> digit_or_comma (last (map ?f pre))"
    using pre nd by (cases "pre = []") (auto simp: last_map)
  have post': "list_all (\<lambda>c. \<not> is_digit c) (map ?f post)"
    using post sp by (auto simp: list_all_iff digit_or_comma_def)
  have eq: "replace (pre @ d # r @ post) [NBSP] '' '' = map ?f pre @ d # r @ map ?f post"
    by (simp add: replace_char mr md del: map_eq_conv)
  have groups: "findall_digit_groups (replace (pre @ d # r @ post) [NBSP] '' '')
      = findall_digit_groups (map ?f pre) @ [d # r @ takeWhile digit_or_comma (map ?f post)]"
  proof -
    have "findall_digit_groups (map ?f pre @ (d # r @ map ?f post))
        = findall_digit_groups (map ?f pre) @ findall_digit_groups (d # r @ map ?f post)"
      using pre' by (rule findall_append)
    also have "findall_digit_groups (d # r @ map ?f post)
        = [d # r @ takeWhile digit_or_comma (map ?f post)]"
      using d r post' by (rule findall_group)
    finally show ?thesis by (simp only: eq)
  qed
  have commas: "filter (\<lambda>c. c \<noteq> CHR '','') (d # r @ takeWhile digit_or_comma (map ?f post))
      = filter is_digit (d # r)"
  proof -
    have "\<And>c. c \<in> set (takeWhile digit_or_comma (map ?f post)) \<Longrightarrow> c = CHR '',''"
      using post' by (auto simp: list_all_iff digit_or_comma_def dest!: set_takeWhileD)
    then have t: "filter (\<lambda>c. c \<noteq> CHR '','') (takeWhile digit_or_comma (map ?f post)) = []"
      by (auto simp: filter_empty_conv)
    have e: "filter (\<lambda>c. c \<noteq> CHR '','') (d # r) = filter is_digit (d # r)"
    proof (rule filter_cong [OF refl])
      fix x assume "x \<in> set (d # r)"
      with d r have "digit_or_comma x" by (auto simp: list_all_iff digit_or_comma_def)
      then show "(x \<noteq> CHR '','') = is_digit x"
        using comma_not_digit by (auto simp: digit_or_comma_def)
    qed
    have "filter (\<lambda>c. c \<noteq> CHR '','') ((d # r) @ takeWhile digit_or_comma (map ?f post))
        = filter (\<lambda>c. c \<noteq> CHR '','') (d # r)
          @ filter (\<lambda>c. c \<noteq> CHR '','') (takeWhile digit_or_comma (map ?f post))"
      by (rule filter_append)
    also have "\<dots> = filter is_digit (d # r)"
      by (simp only: e t append_Nil2)
    finally show ?thesis by (simp only: append_Cons)
  qed
  have ds: "filter is_digit (d # r) \<noteq> []" "list_all is_digit (filter is_digit (d # r))"
    using d by (simp_all add: list_all_iff)
  show ?thesis
    by (simp add: parse_int_def Let_def groups replace_delete commas
        py_int_digits [OF ds len] del: filter.simps)
qed

text \<open>
  Claim C6. The values of the specification: \<open>_to_float("1,234.50")\<close> is 1234.5,
  \<open>_to_percent("-3.2%")\<close> is the float \<open>-3.2\<close> (the double nearest to it, written out in
  the last conjunct), \<open>parse_int("12,000")\<close> is 12000, and \<open>_to_float\<close> returns \<open>pd.NA\<close>
  for \<open>"--"\<close> and for the empty string.
\<close>

theorem C6_coercion_values:
  "to_float (Text ''1,234.50'') = Number (Finite 1234.5)
   \<and> to_percent (Text ''-3.2%'') = Number (to_double (- 3.2))
   \<and> parse_int ''12,000'' = Some 12000
   \<and> to_float (Text ''--'') = NA
   \<and> to_float (Text []) = NA
   \<and> to_double (- 3.2) = Finite (- 3602879701896397 / 1125899906842624)"
proof -
  have a: "to_float (Text ''1,234.50'') = Number (Finite 1234.5)"
    by (simp add: to_float_def isna_def to_float_str_def py_float_def decimal_value_def
        str_eval float_eval)
  have b: "to_percent (Text ''-3.2%'') = Number (to_double (- 3.2))"
    by (simp add: to_percent_def isna_def match_percent_def py_float_def decimal_value_def
        str_eval float_eval)
  have c: "parse_int ''12,000'' = Some 12000"
    by (simp add: parse_int_def py_int_def digit_or_comma_def str_eval)
  have d: "to_float (Text ''--'') = NA" and e: "to_float (Text []) = NA"
    by (simp_all add: to_float_def isna_def to_float_str_def str_eval)
  have f: "to_double (- 3.2) = Finite (- 3602879701896397 / 1125899906842624)"
    by (simp add: float_eval)
  from a b c d e f show ?thesis by simp
qed

text \<open>
  Claim C5 as stated fails on \<open>"1e999"\<close>: nothing is cleaned away, \<open>float("1e999")\<close>
  overflows without raising, and \<open>_to_float\<close> returns the infinity, which is not a finite
  value.
\<close>

theorem C5_to_float_returns_infinity: "to_float (Text ''1e999'') = Number PosInf"
  by (simp add: to_float_def isna_def to_float_str_def str_eval py_float_1e999)

text \<open>
  Claim C5, amended. For every string, \<open>_to_float\<close> and \<open>_to_percent\<close> return \<open>pd.NA\<close> or
  a float that is not NaN (finite, or an infinity when the number read is beyond the
  range of a double), and \<open>parse_int\<close> returns \<open>None\<close> or an integer; every exception of
  \<open>float\<close> and \<open>int\<close> is caught inside the three functions, so none of them raises.
\<close>

theorem C5_coercions_return_number_or_absent:
  "(to_float (Text s) = NA \<or> (\<exists>f. to_float (Text s) = Number f \<and> f \<noteq> NaN))
   \<and> (to_percent (Text s) = NA \<or> (\<exists>f. to_percent (Text s) = Number f \<and> f \<noteq> NaN))
   \<and> (parse_int s = None \<or> (\<exists>n. parse_int s = Some n))"
proof -
  have "to_float (Text s) = to_float_str s"
    by (simp add: to_float_def isna_def)
  with to_float_str_cases [of s] to_percent_cases [of s] show ?thesis
    by (cases "parse_int s") auto
qed

end
